theory Spec2Isabelle
  imports Complex_Main "HOL-Library.Monad_Syntax"
begin

section \<open>Data model\<close>

text \<open>
  The hook \<^verbatim>\<open>useComputerVision\<close> (hooks/useComputerVision.ts) is embedded here.
  JavaScript numbers (coordinates, timestamps, pixel sizes) are modelled as reals, so the
  arithmetic is the exact one that the doubles of the source approximate; counters are
  natural numbers.  A landmark carries the two coordinates that the source reads (\<^verbatim>\<open>x\<close>,
  \<^verbatim>\<open>y\<close>); the depth \<^verbatim>\<open>z\<close> is never read.
\<close>

record landmark =
  lm_x :: real
  lm_y :: real

text \<open>
  Detection results are untyped objects in the source (\<^verbatim>\<open>results: any\<close>): the face
  detector fills \<^verbatim>\<open>faceLandmarks\<close>, the hand and pose detectors fill \<^verbatim>\<open>landmarks\<close>.
  A field that is absent (\<^verbatim>\<open>undefined\<close>) is \<open>None\<close>.
\<close>

record detection_result =
  faceLandmarks :: "landmark list list option"
  landmarks :: "landmark list list option"

datatype CVMode = clown_nose | rock_paper | victory

text \<open>A thrown JavaScript value: an \<^verbatim>\<open>Error\<close> object with its message, or anything else.\<close>

datatype thrown = Error string | NonError

text \<open>
  Reading a property of \<^verbatim>\<open>undefined\<close> throws a \<^verbatim>\<open>TypeError\<close>, which is an
  \<^verbatim>\<open>Error\<close>; the text of its message depends on the engine.
\<close>

definition TypeError :: thrown where
  "TypeError = Error ''Cannot read properties of undefined''"

text \<open>
  \<^verbatim>\<open>xs[i]\<close> on a JavaScript array: the element, or \<^verbatim>\<open>undefined\<close> out of range.
  Used in the option monad, \<open>None\<close> is the \<^verbatim>\<open>TypeError\<close> of the property access
  that follows the indexing in the source.
\<close>

definition elem_at :: "'a list \<Rightarrow> nat \<Rightarrow> 'a option" where
  "elem_at xs i = (if i < length xs then Some (xs ! i) else None)"

section \<open>The drawing surface\<close>

text \<open>The calls and assignments that the draw functions make on the 2-D context.\<close>

datatype canvas_op =
    Save
  | Restore
  | Scale real real
  | FillStyle string
  | StrokeStyle string
  | LineWidth real
  | Font string
  | TextAlign string
  | TextBaseline string
  | ShadowBlur real
  | ShadowColor string
  | BeginPath
  | Arc real real real real real
  | Fill
  | MoveTo real real
  | LineTo real real
  | Stroke
  | FillText string real real
  | FillRect real real real real
  | StrokeRect real real real real
  | ClearRect real real real real

text \<open>
  A draw function runs for its effect on the surface and may throw part-way: its
  meaning is the sequence of operations performed, and the value thrown, if any.
\<close>

type_synonym drawing = "canvas_op list \<times> thrown option"

definition emit :: "canvas_op list \<Rightarrow> drawing" where
  "emit ops = (ops, None)"

definition throw :: "thrown \<Rightarrow> drawing" where
  "throw e = ([], Some e)"

text \<open>Sequencing: what follows a throw is not executed.\<close>

definition andThen :: "drawing \<Rightarrow> drawing \<Rightarrow> drawing" where
  "andThen d1 d2 = (case snd d1 of Some e \<Rightarrow> d1 | None \<Rightarrow> (fst d1 @ fst d2, snd d2))"

text \<open>Use of a possibly \<^verbatim>\<open>undefined\<close> object through its properties.\<close>

definition deref :: "'a option \<Rightarrow> ('a \<Rightarrow> drawing) \<Rightarrow> drawing" where
  "deref v k = (case v of None \<Rightarrow> throw TypeError | Some a \<Rightarrow> k a)"

fun forEach :: "('a \<Rightarrow> drawing) \<Rightarrow> 'a list \<Rightarrow> drawing" where
  "forEach f [] = emit []"
| "forEach f (a # rest) = andThen (f a) (forEach f rest)"

text \<open>Conversion of a non-negative integer to its decimal string, as a template literal does.\<close>

fun string_of_nat :: "nat \<Rightarrow> string" where
  "string_of_nat n =
     (if n < 10 then [''0123456789'' ! n]
      else string_of_nat (n div 10) @ [''0123456789'' ! (n mod 10)])"

declare string_of_nat.simps [simp del]

section \<open>Hand gesture mode\<close>

definition HAND_CONNECTIONS :: "(nat \<times> nat) list" where
  "HAND_CONNECTIONS =
     [(0, 1), (1, 2), (2, 3), (3, 4),
      (0, 5), (5, 6), (6, 7), (7, 8),
      (0, 9), (9, 10), (10, 11), (11, 12),
      (0, 13), (13, 14), (14, 15), (15, 16),
      (0, 17), (17, 18), (18, 19), (19, 20),
      (5, 9), (9, 13), (13, 17)]"

record fingers =
  indexExtended :: bool
  middleExtended :: bool
  ringExtended :: bool
  pinkyExtended :: bool
  thumbExtended :: bool

text \<open>
  Lines 286 to 295: the four finger tests compare the tip with the second joint on the
  vertical axis, the thumb test compares horizontal distances from the wrist.  The
  landmarks are read in the order of the source.
\<close>

definition fingerStates :: "landmark list \<Rightarrow> fingers option" where
  "fingerStates lms = do {
     l8 \<leftarrow> elem_at lms 8; l6 \<leftarrow> elem_at lms 6;
     l12 \<leftarrow> elem_at lms 12; l10 \<leftarrow> elem_at lms 10;
     l16 \<leftarrow> elem_at lms 16; l14 \<leftarrow> elem_at lms 14;
     l20 \<leftarrow> elem_at lms 20; l18 \<leftarrow> elem_at lms 18;
     wrist \<leftarrow> elem_at lms 0;
     thumbTip \<leftarrow> elem_at lms 4;
     thumbPip \<leftarrow> elem_at lms 3;
     Some \<lparr> indexExtended = lm_y l8 < lm_y l6,
            middleExtended = lm_y l12 < lm_y l10,
            ringExtended = lm_y l16 < lm_y l14,
            pinkyExtended = lm_y l20 < lm_y l18,
            thumbExtended =
              \<bar>lm_x thumbTip - lm_x wrist\<bar> > \<bar>lm_x thumbPip - lm_x wrist\<bar> \<rparr>
   }"

text \<open>Lines 298 to 303: one increment per extended finger.\<close>

definition extendedCount :: "fingers \<Rightarrow> nat" where
  "extendedCount f =
     (let c = 0;
          c = (if indexExtended f then c + 1 else c);
          c = (if middleExtended f then c + 1 else c);
          c = (if ringExtended f then c + 1 else c);
          c = (if pinkyExtended f then c + 1 else c);
          c = (if thumbExtended f then c + 1 else c)
      in c)"

text \<open>Lines 306 to 333: the label, its colour and the colour of its background box.\<close>

definition gestureStyle :: "fingers \<Rightarrow> string \<times> string \<times> string" where
  "gestureStyle f =
     (if indexExtended f \<and> middleExtended f \<and> \<not> ringExtended f \<and> \<not> pinkyExtended f
        then (''SCISSORS'', ''#0088FF'', ''rgba(0, 136, 255, 0.3)'')
      else if extendedCount f \<le> 1
        then (''ROCK'', ''#FF0000'', ''rgba(255, 0, 0, 0.3)'')
      else if extendedCount f = 5
        then (''PAPER'', ''#00FF00'', ''rgba(0, 255, 0, 0.3)'')
      else (''??? ('' @ string_of_nat (extendedCount f) @ '')'',
            ''#FFFF00'', ''rgba(255, 255, 0, 0.3)''))"

definition gesture :: "fingers \<Rightarrow> string" where
  "gesture f = fst (gestureStyle f)"

text \<open>
  \<^verbatim>\<open>drawRockPaper\<close>.  The text measurement of the context (\<^verbatim>\<open>ctx.measureText\<close>) is
  the parameter \<open>measureText\<close>.  \<open>drawHand\<close> is the body of the function after the
  early return of the no-hand branch, on the 0th landmark set; \<open>handConnection\<close> and
  \<open>handMarker\<close> are the callbacks of its two \<^verbatim>\<open>forEach\<close> loops, \<open>gestureBanner\<close> is
  the label part (lines 336 to 369).
\<close>

definition handConnection :: "landmark list \<Rightarrow> real \<Rightarrow> real \<Rightarrow> nat \<times> nat \<Rightarrow> drawing" where
  "handConnection lms width height =
     (\<lambda>(start, stop).
        andThen (emit [BeginPath])
       (deref (elem_at lms start) (\<lambda>startLm.
        andThen (emit [MoveTo (lm_x startLm * width) (lm_y startLm * height)])
       (deref (elem_at lms stop) (\<lambda>endLm.
        emit [LineTo (lm_x endLm * width) (lm_y endLm * height), Stroke])))))"

definition handMarker :: "real \<Rightarrow> real \<Rightarrow> landmark \<Rightarrow> drawing" where
  "handMarker width height =
     (\<lambda>lm. emit [BeginPath, Arc (lm_x lm * width) (lm_y lm * height) 5 0 (2 * pi), Fill])"

definition gestureBanner ::
  "(string \<Rightarrow> real) \<Rightarrow> fingers \<Rightarrow> landmark \<Rightarrow> real \<Rightarrow> real \<Rightarrow> canvas_op list" where
  "gestureBanner measureText f l9 width height =
     (let (gesture, color, bgColor) = gestureStyle f;
          centerX = lm_x l9 * width;
          centerY = lm_y l9 * height - 60;
          textWidth = measureText gesture;
          textHeight = 60
      in [Save, Scale (- 1) 1, Font ''bold 48px Inter, sans-serif'',
          FillStyle bgColor,
          FillRect (- centerX - textWidth / 2 - 20) (centerY - textHeight)
                   (textWidth + 40) (textHeight + 20),
          FillStyle color, TextAlign ''center'', TextBaseline ''middle'',
          FillText gesture (- centerX) (centerY - textHeight / 2),
          Font ''20px Inter, sans-serif'', FillStyle ''#FFFFFF'',
          TextAlign ''right'',
          FillText (''Fingers: '' @ string_of_nat (extendedCount f)) (- 10) (height - 20),
          Restore])"

definition drawHand :: "(string \<Rightarrow> real) \<Rightarrow> landmark list \<Rightarrow> real \<Rightarrow> real \<Rightarrow> drawing" where
  "drawHand measureText lms width height =
        andThen (emit [StrokeStyle ''#00FF00'', LineWidth 2])
       (andThen (forEach (handConnection lms width height) HAND_CONNECTIONS)
       (andThen (emit [FillStyle ''#FF00FF''])
       (andThen (forEach (handMarker width height) lms)
       (deref (fingerStates lms) (\<lambda>f.
        deref (elem_at lms 9) (\<lambda>l9.
        emit (gestureBanner measureText f l9 width height)))))))"

definition noHandPrompt :: "real \<Rightarrow> real \<Rightarrow> drawing" where
  "noHandPrompt width height =
     emit [Save, Scale (- 1) 1, FillStyle ''#00FFFF'',
           Font ''bold 32px Inter, sans-serif'', TextAlign ''center'',
           FillText ''Show your hand!'' (- width / 2) (height / 2), Restore]"

definition drawRockPaper ::
  "(string \<Rightarrow> real) \<Rightarrow> detection_result \<Rightarrow> real \<Rightarrow> real \<Rightarrow> drawing" where
  "drawRockPaper measureText results width height =
     (case landmarks results of
        None \<Rightarrow> noHandPrompt width height
      | Some hands \<Rightarrow>
          if length hands = 0 then noHandPrompt width height
          else drawHand measureText (hands ! 0) width height)"

section \<open>Face filter mode\<close>

text \<open>Lines 202 to 205: the distance of the two cheek landmarks in pixels.\<close>

definition cheekDistance :: "landmark \<Rightarrow> landmark \<Rightarrow> real \<Rightarrow> real \<Rightarrow> real" where
  "cheekDistance leftCheek rightCheek width height =
     sqrt (((lm_x rightCheek - lm_x leftCheek) * width)\<^sup>2 +
           ((lm_y rightCheek - lm_y leftCheek) * height)\<^sup>2)"

text \<open>Line 207: \<^verbatim>\<open>Math.max(10, Math.min(cheekDistance * 0.15, 80))\<close>.\<close>

definition radius :: "real \<Rightarrow> real" where
  "radius d = max 10 (min (d * 0.15) 80)"

text \<open>
  The clamp of the specification, \<^verbatim>\<open>clamp(v, lo, hi)\<close>, written from its words: a value
  below the lower bound gives the lower bound, a value above the upper bound gives the
  upper bound, any other value is kept.
\<close>

definition spec_clamp :: "real \<Rightarrow> real \<Rightarrow> real \<Rightarrow> real" where
  "spec_clamp v lo hi = (if v < lo then lo else if hi < v then hi else v)"

text \<open>
  Lines 192 to 207: centre and radius of the nose, from the landmarks 4 (nose tip), 234
  and 454 (cheeks) of a face.
\<close>

definition noseGeometry :: "landmark list \<Rightarrow> real \<Rightarrow> real \<Rightarrow> (real \<times> real \<times> real) option" where
  "noseGeometry lms width height = do {
     noseTip \<leftarrow> elem_at lms 4;
     let noseX = lm_x noseTip * width;
     let noseY = lm_y noseTip * height;
     rightCheek \<leftarrow> elem_at lms 454;
     leftCheek \<leftarrow> elem_at lms 234;
     Some (noseX, noseY, radius (cheekDistance leftCheek rightCheek width height))
   }"

definition faceMarker :: "landmark list \<Rightarrow> real \<Rightarrow> real \<Rightarrow> nat \<Rightarrow> drawing" where
  "faceMarker lms width height =
     (\<lambda>idx. case elem_at lms idx of
               None \<Rightarrow> emit []
             | Some lm \<Rightarrow>
                 emit [BeginPath, Arc (lm_x lm * width) (lm_y lm * height) 3 0 (2 * pi), Fill])"

definition noseOps :: "real \<Rightarrow> real \<Rightarrow> real \<Rightarrow> canvas_op list" where
  "noseOps noseX noseY r =
     (let highlightOffset = r * 0.3;
          highlightRadius = r * 0.3
      in [FillStyle ''#FF0000'', BeginPath, Arc noseX noseY r 0 (2 * pi), Fill,
          FillStyle ''rgba(255, 100, 100, 0.6)'', BeginPath,
          Arc (noseX - highlightOffset) (noseY - highlightOffset) highlightRadius 0 (2 * pi),
          Fill, FillStyle ''#00FF00''])"

definition drawFace :: "landmark list \<Rightarrow> real \<Rightarrow> real \<Rightarrow> drawing" where
  "drawFace lms width height =
     deref (noseGeometry lms width height) (\<lambda>(noseX, noseY, r).
       andThen (emit (noseOps noseX noseY r))
               (forEach (faceMarker lms width height) [4, 1, 234, 454, 10, 152]))"

text \<open>\<^verbatim>\<open>drawClownNose\<close>: without a face the function returns before it draws.\<close>

definition drawClownNose :: "detection_result \<Rightarrow> real \<Rightarrow> real \<Rightarrow> drawing" where
  "drawClownNose results width height =
     (case faceLandmarks results of
        None \<Rightarrow> emit []
      | Some faces \<Rightarrow>
          if length faces = 0 then emit []
          else drawFace (faces ! 0) width height)"

section \<open>Body pose mode\<close>

definition POSE_CONNECTIONS :: "(nat \<times> nat) list" where
  "POSE_CONNECTIONS =
     [(11, 12), (11, 13), (13, 15), (12, 14), (14, 16),
      (11, 23), (12, 24), (23, 24),
      (23, 25), (25, 27), (24, 26), (26, 28)]"

text \<open>
  Lines 425 to 429.  The conjunction \<^verbatim>\<open>&&\<close> is short-circuit: the right wrist is read
  only when the left wrist is above the nose.
\<close>

definition isVictory :: "landmark list \<Rightarrow> bool option" where
  "isVictory lms = do {
     leftWrist \<leftarrow> elem_at lms 15;
     nose \<leftarrow> elem_at lms 0;
     if lm_y leftWrist < lm_y nose
     then do { rightWrist \<leftarrow> elem_at lms 16; Some (lm_y rightWrist < lm_y nose) }
     else Some False
   }"

text \<open>
  \<^verbatim>\<open>drawVictory\<close> after the early return of the no-body branch is \<open>drawPose\<close>, on the
  0th landmark set: the skeleton (\<open>poseConnection\<close>, where a missing end point skips the
  segment), the markers coloured by index range (\<open>poseMarker\<close>), the banner when the pose
  is a victory (lines 431 to 452), the wrist indicators and the instruction (lines 454 to
  480).
\<close>

definition victoryBanner :: "real \<Rightarrow> real \<Rightarrow> canvas_op list" where
  "victoryBanner width height =
     [StrokeStyle ''#FFD700'', LineWidth 15, ShadowBlur 30, ShadowColor ''#FFD700'',
      StrokeRect 10 10 (width - 20) (height - 20), ShadowBlur 0,
      Save, Scale (- 1) 1, Font ''bold 80px Inter, sans-serif'', FillStyle ''#FFD700'',
      TextAlign ''center'', TextBaseline ''middle'', ShadowBlur 20, ShadowColor ''#FFD700'',
      FillText ''VICTORY!'' (- width / 2) (height / 2), ShadowBlur 0, Restore]"

definition poseConnection :: "landmark list \<Rightarrow> real \<Rightarrow> real \<Rightarrow> nat \<times> nat \<Rightarrow> drawing" where
  "poseConnection lms width height =
     (\<lambda>(start, stop).
        case (elem_at lms start, elem_at lms stop) of
          (Some startLm, Some endLm) \<Rightarrow>
             emit [BeginPath,
                   MoveTo (lm_x startLm * width) (lm_y startLm * height),
                   LineTo (lm_x endLm * width) (lm_y endLm * height), Stroke]
        | _ \<Rightarrow> emit [])"

definition poseMarker :: "real \<Rightarrow> real \<Rightarrow> landmark \<times> nat \<Rightarrow> drawing" where
  "poseMarker width height =
     (\<lambda>(lm, idx).
        emit [FillStyle (if idx < 11 then ''#00FFFF''
                         else if idx < 17 then ''#00FF00'' else ''#FF00FF''),
              BeginPath, Arc (lm_x lm * width) (lm_y lm * height) 6 0 (2 * pi), Fill])"

definition wristOps :: "landmark \<Rightarrow> real \<Rightarrow> real \<Rightarrow> canvas_op list" where
  "wristOps leftWrist width height =
     [Arc (lm_x leftWrist * width) (lm_y leftWrist * height) 15 0 (2 * pi),
      Fill, Save, Scale (- 1) 1, FillStyle ''#FFFFFF'',
      Font ''bold 16px Inter, sans-serif'', TextAlign ''center'',
      FillText ''L'' (- lm_x leftWrist * width) (lm_y leftWrist * height + 5),
      FillStyle ''#FF00FF'', BeginPath]"

definition instructionOps :: "landmark \<Rightarrow> real \<Rightarrow> real \<Rightarrow> canvas_op list" where
  "instructionOps rightWrist width height =
     [Arc (- lm_x rightWrist * width) (lm_y rightWrist * height) 15 0 (2 * pi),
      Fill, FillStyle ''#FFFFFF'',
      FillText ''R'' (- lm_x rightWrist * width) (lm_y rightWrist * height + 5),
      FillStyle ''#CCCCCC'', Font ''18px Inter, sans-serif'', TextAlign ''right'',
      FillText ''Raise both hands above your head!'' (- 10) (height - 20),
      Restore]"

definition drawPose :: "landmark list \<Rightarrow> real \<Rightarrow> real \<Rightarrow> drawing" where
  "drawPose lms width height =
        andThen (emit [StrokeStyle ''#00FFFF'', LineWidth 3])
       (andThen (forEach (poseConnection lms width height) POSE_CONNECTIONS)
       (andThen (forEach (poseMarker width height) (zip lms [0 ..< length lms]))
       (deref (isVictory lms) (\<lambda>v.
        andThen (emit (if v then victoryBanner width height else []))
       (andThen (emit [FillStyle ''#FF00FF'', BeginPath])
       (deref (elem_at lms 15) (\<lambda>leftWrist.
        andThen (emit (wristOps leftWrist width height))
       (deref (elem_at lms 16) (\<lambda>rightWrist.
        emit (instructionOps rightWrist width height))))))))))"

definition noBodyPrompt :: "real \<Rightarrow> real \<Rightarrow> drawing" where
  "noBodyPrompt width height =
     emit [Save, Scale (- 1) 1, FillStyle ''#00FFFF'',
           Font ''bold 24px Inter, sans-serif'', TextAlign ''center'',
           FillText ''Stand back so full body is visible'' (- width / 2) (height / 2),
           Restore]"

definition drawVictory :: "detection_result \<Rightarrow> real \<Rightarrow> real \<Rightarrow> drawing" where
  "drawVictory results width height =
     (case landmarks results of
        None \<Rightarrow> noBodyPrompt width height
      | Some bodies \<Rightarrow>
          if length bodies = 0 then noBodyPrompt width height
          else drawPose (bodies ! 0) width height)"

section \<open>Model lifecycle\<close>

text \<open>
  A detector is used through \<^verbatim>\<open>detectForVideo(video, time)\<close> only, which returns a
  detection result or throws.  \<open>'v\<close> is the type of video frames.
\<close>

datatype 'v detector = Detector (detectForVideo: "'v \<Rightarrow> real \<Rightarrow> thrown + detection_result")

text \<open>The state of the hook that initialization writes: two state variables, three refs.\<close>

record 'v lifecycle =
  isLoading :: bool
  error :: "string option"
  faceLandmarkerRef :: "'v detector option"
  handLandmarkerRef :: "'v detector option"
  poseLandmarkerRef :: "'v detector option"

text \<open>Lines 24 to 30: the state of a freshly mounted hook.\<close>

definition initialLifecycle :: "'v lifecycle" where
  "initialLifecycle =
     \<lparr> isLoading = True, error = None,
       faceLandmarkerRef = None, handLandmarkerRef = None, poseLandmarkerRef = None \<rparr>"

text \<open>
  \<^verbatim>\<open>Promise.all\<close> of the three constructions.  It rejects with the reason of the promise
  that rejects first in time: \<open>order\<close> lists the indices of the promises in the order
  in which they settle (indices it omits settle afterwards, in index order).  It fulfils
  with the three values when none rejects.
\<close>

definition rejection :: "thrown + 'a \<Rightarrow> thrown list" where
  "rejection p = (case p of Inl e \<Rightarrow> [e] | Inr _ \<Rightarrow> [])"

definition Promise_all ::
  "nat list \<Rightarrow> thrown + 'a \<Rightarrow> thrown + 'b \<Rightarrow> thrown + 'c \<Rightarrow> thrown + 'a \<times> 'b \<times> 'c" where
  "Promise_all order face hand pose =
     (case (face, hand, pose) of
        (Inr f, Inr h, Inr p) \<Rightarrow> Inr (f, h, p)
      | _ \<Rightarrow>
         (case concat (map (\<lambda>i. if i = 0 then rejection face
                                 else if i = 1 then rejection hand
                                 else if i = 2 then rejection pose else [])
                          (order @ [0, 1, 2])) of
            e # _ \<Rightarrow> Inl e
          | [] \<Rightarrow> Inl NonError))"

text \<open>Lines 95 to 100: the handler of the \<^verbatim>\<open>catch\<close> clause.\<close>

definition catchInit :: "bool \<Rightarrow> thrown \<Rightarrow> 'v lifecycle \<Rightarrow> 'v lifecycle" where
  "catchInit isMounted err s =
     (if isMounted
      then s\<lparr> error := Some (case err of Error message \<Rightarrow> message
                                | NonError \<Rightarrow> ''Failed to load CV models''),
              isLoading := False \<rparr>
      else s)"

text \<open>
  \<^verbatim>\<open>initializeModels\<close> (lines 41 to 101).  \<open>vision\<close> is the outcome of the fileset
  resolver, \<open>face\<close>, \<open>hand\<close> and \<open>pose\<close> are the outcomes of the three constructions.
  The flag \<^verbatim>\<open>isMounted\<close> is cleared by the cleanup of the effect; \<open>isMounted1\<close> is its
  value when the resolver has settled, \<open>isMounted2\<close> its value when the constructions have.
\<close>

definition initializeModels ::
  "'v lifecycle \<Rightarrow> thrown + 'w \<Rightarrow> bool \<Rightarrow> nat list \<Rightarrow>
   thrown + 'v detector \<Rightarrow> thrown + 'v detector \<Rightarrow> thrown + 'v detector \<Rightarrow> bool \<Rightarrow>
   'v lifecycle" where
  "initializeModels s0 vision isMounted1 order face hand pose isMounted2 =
     (let s = s0\<lparr> isLoading := True, error := None \<rparr> in
      case vision of
        Inl err \<Rightarrow> catchInit isMounted1 err s
      | Inr _ \<Rightarrow>
          if \<not> isMounted1 then s
          else (case Promise_all order face hand pose of
                  Inl err \<Rightarrow> catchInit isMounted2 err s
                | Inr (faceLandmarker, handLandmarker, poseLandmarker) \<Rightarrow>
                    if isMounted2
                    then s\<lparr> faceLandmarkerRef := Some faceLandmarker,
                            handLandmarkerRef := Some handLandmarker,
                            poseLandmarkerRef := Some poseLandmarker,
                            isLoading := False \<rparr>
                    else s))"

section \<open>Frame loop\<close>

record 'v video_element =
  readyState :: nat
  currentFrame :: 'v

text \<open>
  A canvas element: \<open>context2d\<close> is what \<^verbatim>\<open>getContext('2d')\<close> returns, \<open>None\<close> for
  \<^verbatim>\<open>null\<close>; a context is represented by its text measurement.
\<close>

record canvas_element =
  context2d :: "(string \<Rightarrow> real) option"
  canvas_width :: real
  canvas_height :: real

record 'v options =
  mode :: CVMode
  videoElement :: "'v video_element option"
  canvasElement :: "canvas_element option"
  enabled :: bool

text \<open>
  The state that the loop reads and writes: the published \<^verbatim>\<open>fps\<close>, the three refs of
  lines 33 to 35, and whether a callback requested with \<^verbatim>\<open>requestAnimationFrame\<close> is
  pending (the handle kept in \<^verbatim>\<open>animationFrameRef\<close> identifies it).
\<close>

record loop_state =
  fps :: int
  frameCountRef :: nat
  fpsTimeRef :: real
  lastTimeRef :: real
  pendingFrame :: bool

definition initialLoop :: loop_state where
  "initialLoop = \<lparr> fps = 0, frameCountRef = 0, fpsTimeRef = 0, lastTimeRef = 0,
                   pendingFrame = False \<rparr>"

text \<open>\<^verbatim>\<open>Math.round\<close>: the nearest integer, a tie going up.\<close>

definition Math_round :: "real \<Rightarrow> int" where
  "Math_round r = \<lfloor>r + 1 / 2\<rfloor>"

text \<open>
  Lines 120 to 128.  The second component is the argument of \<^verbatim>\<open>setFps\<close> when it is
  called.  A window start of 0 is falsy and is replaced by the timestamp.
\<close>

definition updateFps :: "loop_state \<Rightarrow> real \<Rightarrow> loop_state \<times> int option" where
  "updateFps st timestamp =
     (let st = st\<lparr> frameCountRef := frameCountRef st + 1 \<rparr>;
          st = (if fpsTimeRef st = 0 then st\<lparr> fpsTimeRef := timestamp \<rparr> else st);
          elapsed = timestamp - fpsTimeRef st
      in if elapsed \<ge> 1000
         then let v = Math_round ((real (frameCountRef st) * 1000) / elapsed)
              in (st\<lparr> fps := v, frameCountRef := 0, fpsTimeRef := timestamp \<rparr>, Some v)
         else (st, None))"

text \<open>Lines 134 to 158: the body of the \<^verbatim>\<open>try\<close> block.\<close>

definition detectAndDraw ::
  "CVMode \<Rightarrow> 'v lifecycle \<Rightarrow> 'v video_element \<Rightarrow> canvas_element \<Rightarrow> (string \<Rightarrow> real) \<Rightarrow>
   real \<Rightarrow> drawing" where
  "detectAndDraw m life video canvas ctx currentTime =
     (case m of
        clown_nose \<Rightarrow>
          (case faceLandmarkerRef life of
             Some d \<Rightarrow>
               if readyState video \<ge> 2
               then (case detectForVideo d (currentFrame video) currentTime of
                       Inl err \<Rightarrow> throw err
                     | Inr results \<Rightarrow>
                         drawClownNose results (canvas_width canvas) (canvas_height canvas))
               else emit []
           | None \<Rightarrow> emit [])
      | rock_paper \<Rightarrow>
          (case handLandmarkerRef life of
             Some d \<Rightarrow>
               if readyState video \<ge> 2
               then (case detectForVideo d (currentFrame video) currentTime of
                       Inl err \<Rightarrow> throw err
                     | Inr results \<Rightarrow>
                         drawRockPaper ctx results (canvas_width canvas) (canvas_height canvas))
               else emit []
           | None \<Rightarrow> emit [])
      | victory \<Rightarrow>
          (case poseLandmarkerRef life of
             Some d \<Rightarrow>
               if readyState video \<ge> 2
               then (case detectForVideo d (currentFrame video) currentTime of
                       Inl err \<Rightarrow> throw err
                     | Inr results \<Rightarrow>
                         drawVictory results (canvas_width canvas) (canvas_height canvas))
               else emit []
           | None \<Rightarrow> emit []))"

text \<open>
  What one tick does: the new loop state, the operations on the surface, the value
  passed to \<^verbatim>\<open>console.error\<close> and the value passed to \<^verbatim>\<open>setFps\<close>.
\<close>

record tick =
  after :: loop_state
  drawn :: "canvas_op list"
  logged :: "thrown option"
  published :: "int option"

text \<open>
  \<^verbatim>\<open>processFrame\<close> (lines 111 to 165).  \<open>now\<close> is the value of
  \<^verbatim>\<open>performance.now()\<close>.  The callback runs with no request pending; each call of
  \<^verbatim>\<open>requestAnimationFrame\<close> sets \<open>pendingFrame\<close>.
\<close>

definition processFrame ::
  "'v options \<Rightarrow> 'v lifecycle \<Rightarrow> real \<Rightarrow> loop_state \<Rightarrow> real \<Rightarrow> tick" where
  "processFrame opts life now st timestamp =
     (if \<not> enabled opts \<or> videoElement opts = None \<or> canvasElement opts = None \<or> isLoading life
      then \<lparr> after = st\<lparr> pendingFrame := True \<rparr>, drawn = [], logged = None, published = None \<rparr>
      else
        case (videoElement opts, canvasElement opts) of
          (Some video, Some canvas) \<Rightarrow>
            (case context2d canvas of
               None \<Rightarrow> \<lparr> after = st, drawn = [], logged = None, published = None \<rparr>
             | Some ctx \<Rightarrow>
                 let (st, pub) = updateFps st timestamp;
                     cleared = [ClearRect 0 0 (canvas_width canvas) (canvas_height canvas)];
                     (ops, err) = detectAndDraw (mode opts) life video canvas ctx now;
                     st = st\<lparr> lastTimeRef := timestamp \<rparr>;
                     st = st\<lparr> pendingFrame := True \<rparr>
                 in \<lparr> after = st, drawn = cleared @ ops, logged = err, published = pub \<rparr>)
        | _ \<Rightarrow> \<lparr> after = st, drawn = [], logged = None, published = None \<rparr>)"

text \<open>
  Lines 168 to 178: the effect requests the first frame when processing is enabled and
  the models are loaded; its cleanup cancels the pending request.
\<close>

definition startLoop :: "'v options \<Rightarrow> 'v lifecycle \<Rightarrow> loop_state \<Rightarrow> loop_state" where
  "startLoop opts life st =
     (if enabled opts \<and> \<not> isLoading life then st\<lparr> pendingFrame := True \<rparr> else st)"

definition stopLoop :: "loop_state \<Rightarrow> loop_state" where
  "stopLoop st = st\<lparr> pendingFrame := False \<rparr>"

text \<open>
  The display refreshes of a run: at each refresh the pending callback, if there is one,
  fires with the timestamp of the refresh.  Each refresh comes with the options and
  lifecycle state of the callback, the clock value and the timestamp.  The result lists
  the ticks that ran.
\<close>

fun runLoop ::
  "loop_state \<Rightarrow> ('v options \<times> 'v lifecycle \<times> real \<times> real) list \<Rightarrow> tick list" where
  "runLoop st [] = []"
| "runLoop st ((opts, life, now, timestamp) # refreshes) =
     (if pendingFrame st
      then let t = processFrame opts life now (st\<lparr> pendingFrame := False \<rparr>) timestamp
           in t # runLoop (after t) refreshes
      else runLoop st refreshes)"

text \<open>
  The window start of a loop state is unset or not before \<open>t0\<close>: the invariant of a
  run whose timestamps start at \<open>t0\<close>.
\<close>

definition in_window :: "real \<Rightarrow> loop_state \<Rightarrow> bool" where
  "in_window t0 st \<longleftrightarrow> fpsTimeRef st = 0 \<or> t0 \<le> fpsTimeRef st"

section \<open>Sample inputs\<close>

text \<open>
  A hand of 21 landmarks with index and middle finger up, ring and little finger folded
  and the thumb stretched out sideways.
\<close>

definition scissorsHand :: "landmark list" where
  "scissorsHand =
     map (\<lambda>(a, b). \<lparr> lm_x = a, lm_y = b \<rparr>)
       [(0.5, 0.9), (0.45, 0.8), (0.42, 0.7), (0.4, 0.6), (0.2, 0.5),
        (0.45, 0.6), (0.45, 0.5), (0.45, 0.4), (0.45, 0.3),
        (0.5, 0.6), (0.5, 0.5), (0.5, 0.4), (0.5, 0.3),
        (0.55, 0.6), (0.55, 0.5), (0.55, 0.55), (0.55, 0.6),
        (0.6, 0.6), (0.6, 0.5), (0.6, 0.55), (0.6, 0.6)]"

text \<open>
  A face of 478 landmarks with the cheeks a fifth of the frame apart, and a body of 33
  landmarks with both wrists above the nose.
\<close>

definition sampleFace :: "landmark list" where
  "sampleFace =
     (replicate 478 \<lparr> lm_x = 0.5, lm_y = 0.5 \<rparr>)
       [234 := \<lparr> lm_x = 0.4, lm_y = 0.5 \<rparr>, 454 := \<lparr> lm_x = 0.6, lm_y = 0.5 \<rparr>]"

definition samplePose :: "landmark list" where
  "samplePose =
     (replicate 33 \<lparr> lm_x = 0.5, lm_y = 0.4 \<rparr>)
       [15 := \<lparr> lm_x = 0.3, lm_y = 0.2 \<rparr>, 16 := \<lparr> lm_x = 0.7, lm_y = 0.3 \<rparr>]"

text \<open>
  Detectors that find nothing, that throw, and that report a hand without landmarks; a
  loaded lifecycle; a video element with data, a canvas with and without a 2-D context;
  options of an enabled hook; the loop state after the effect has requested the first
  frame.
\<close>

definition emptyResult :: detection_result where
  "emptyResult = \<lparr> faceLandmarks = Some [], landmarks = Some [] \<rparr>"

definition emptyDetector :: "'v detector" where
  "emptyDetector = Detector (\<lambda>_ _. Inr emptyResult)"

definition throwingDetector :: "'v detector" where
  "throwingDetector = Detector (\<lambda>_ _. Inl (Error ''detection failed''))"

definition readyLifecycle :: "'v detector \<Rightarrow> 'v lifecycle" where
  "readyLifecycle d =
     \<lparr> isLoading = False, error = None,
       faceLandmarkerRef = Some d, handLandmarkerRef = Some d, poseLandmarkerRef = Some d \<rparr>"

definition sampleVideo :: "unit video_element" where
  "sampleVideo = \<lparr> readyState = 4, currentFrame = () \<rparr>"

definition sampleCanvas :: canvas_element where
  "sampleCanvas = \<lparr> context2d = Some (\<lambda>_. 100), canvas_width = 1280, canvas_height = 720 \<rparr>"

definition noContextCanvas :: canvas_element where
  "noContextCanvas = \<lparr> context2d = None, canvas_width = 1280, canvas_height = 720 \<rparr>"

definition sampleOptions :: "CVMode \<Rightarrow> canvas_element \<Rightarrow> unit options" where
  "sampleOptions m canvas =
     \<lparr> mode = m, videoElement = Some sampleVideo, canvasElement = Some canvas, enabled = True \<rparr>"

definition requested :: loop_state where
  "requested = initialLoop\<lparr> pendingFrame := True \<rparr>"

definition brokenHandDetector :: "'v detector" where
  "brokenHandDetector = Detector (\<lambda>_ _. Inr \<lparr> faceLandmarks = None, landmarks = Some [[]] \<rparr>)"

section \<open>Auxiliary facts\<close>

lemma elem_at_Some: "i < length xs \<Longrightarrow> elem_at xs i = Some (xs ! i)"
  by (simp add: elem_at_def)

lemma emit_simps [simp]: "fst (emit ops) = ops" "snd (emit ops) = None"
  by (simp_all add: emit_def)

lemma deref_Some [simp]: "deref (Some a) k = k a"
  by (simp add: deref_def)

lemma andThen_ok: "snd d1 = None \<Longrightarrow> andThen d1 d2 = (fst d1 @ fst d2, snd d2)"
  by (simp add: andThen_def)

lemma snd_forEach_None:
  "(\<And>a. a \<in> set xs \<Longrightarrow> snd (f a) = None) \<Longrightarrow> snd (forEach f xs) = None"
  by (induction xs) (auto simp: andThen_def)

lemma fingerStates_Some:
  assumes "21 \<le> length lms"
  shows "fingerStates lms =
     Some \<lparr> indexExtended = lm_y (lms ! 8) < lm_y (lms ! 6),
            middleExtended = lm_y (lms ! 12) < lm_y (lms ! 10),
            ringExtended = lm_y (lms ! 16) < lm_y (lms ! 14),
            pinkyExtended = lm_y (lms ! 20) < lm_y (lms ! 18),
            thumbExtended =
              (\<bar>lm_x (lms ! 4) - lm_x (lms ! 0)\<bar> > \<bar>lm_x (lms ! 3) - lm_x (lms ! 0)\<bar>) \<rparr>"
  using assms by (auto simp: fingerStates_def elem_at_def)

lemma extendedCount_sum:
  "extendedCount f = of_bool (indexExtended f) + of_bool (middleExtended f) +
     of_bool (ringExtended f) + of_bool (pinkyExtended f) + of_bool (thumbExtended f)"
  by (simp add: extendedCount_def Let_def)

lemma scissors_count:
  "indexExtended f \<Longrightarrow> middleExtended f \<Longrightarrow> \<not> ringExtended f \<Longrightarrow> \<not> pinkyExtended f \<Longrightarrow>
   extendedCount f = (if thumbExtended f then 3 else 2)"
  by (simp add: extendedCount_sum)

lemma gesture_cases:
  "gesture f =
     (if indexExtended f \<and> middleExtended f \<and> \<not> ringExtended f \<and> \<not> pinkyExtended f
        then ''SCISSORS''
      else if extendedCount f \<le> 1 then ''ROCK''
      else if extendedCount f = 5 then ''PAPER''
      else ''??? ('' @ string_of_nat (extendedCount f) @ '')'')"
  by (simp add: gesture_def gestureStyle_def)

lemma handConnection_ok:
  assumes "21 \<le> length lms" and "a \<in> set HAND_CONNECTIONS"
  shows "snd (handConnection lms w h a) = None"
proof -
  from assms(2) have "fst a < 21 \<and> snd a < 21"
    by (auto simp: HAND_CONNECTIONS_def)
  with assms(1) have "elem_at lms (fst a) = Some (lms ! fst a)"
    and "elem_at lms (snd a) = Some (lms ! snd a)"
    by (simp_all add: elem_at_def)
  then show ?thesis
    by (simp add: handConnection_def case_prod_beta andThen_ok)
qed

lemma drawHand_ok:
  assumes "21 \<le> length lms" and "fingerStates lms = Some f"
  shows "drawHand m lms w h =
           ([StrokeStyle ''#00FF00'', LineWidth 2]
              @ fst (forEach (handConnection lms w h) HAND_CONNECTIONS)
              @ [FillStyle ''#FF00FF'']
              @ fst (forEach (handMarker w h) lms)
              @ gestureBanner m f (lms ! 9) w h, None)"
proof -
  have nine: "elem_at lms 9 = Some (lms ! 9)"
    using assms(1) by (simp add: elem_at_def)
  have conn: "snd (forEach (handConnection lms w h) HAND_CONNECTIONS) = None"
    by (rule snd_forEach_None) (rule handConnection_ok [OF assms(1)])
  have marks: "snd (forEach (handMarker w h) lms) = None"
    by (rule snd_forEach_None) (simp add: handMarker_def)
  show ?thesis
    by (simp add: drawHand_def andThen_ok conn marks assms(2) nine emit_def)
qed

lemma gestureBanner_label:
  "FillText (gesture f) (- (lm_x l9 * w)) (lm_y l9 * h - 60 - 60 / 2)
     \<in> set (gestureBanner m f l9 w h)"
  by (cases "gestureStyle f") (simp add: gestureBanner_def gesture_def Let_def)

section \<open>Hand gesture classification\<close>

text \<open>
  Claim C1.  For every hand landmark set (21 landmarks), the four finger flags are the
  comparisons of tip and second joint on the vertical axis, and the label is decided by
  the branches SCISSORS, ROCK, PAPER, unknown in this order, the first match winning:
  index and middle extended with ring and little finger folded gives SCISSORS whatever
  the thumb is (and so whatever the count is); otherwise a count of at most 1 gives ROCK,
  otherwise a count of 5 gives PAPER, otherwise the label carries the count.  The label
  is the one that \<open>drawHand\<close> writes above the hand, and drawing does not throw.
\<close>

theorem gesture_precedence:
  assumes "21 \<le> length lms"
  shows "\<exists>f. fingerStates lms = Some f
     \<and> indexExtended f = (lm_y (lms ! 8) < lm_y (lms ! 6))
     \<and> middleExtended f = (lm_y (lms ! 12) < lm_y (lms ! 10))
     \<and> ringExtended f = (lm_y (lms ! 16) < lm_y (lms ! 14))
     \<and> pinkyExtended f = (lm_y (lms ! 20) < lm_y (lms ! 18))
     \<and> gesture f =
         (if indexExtended f \<and> middleExtended f \<and> \<not> ringExtended f \<and> \<not> pinkyExtended f
            then ''SCISSORS''
          else if extendedCount f \<le> 1 then ''ROCK''
          else if extendedCount f = 5 then ''PAPER''
          else ''??? ('' @ string_of_nat (extendedCount f) @ '')'')
     \<and> (indexExtended f \<and> middleExtended f \<and> \<not> ringExtended f \<and> \<not> pinkyExtended f
          \<longrightarrow> (\<forall>t. gesture (f\<lparr> thumbExtended := t \<rparr>) = ''SCISSORS''))
     \<and> snd (drawHand m lms w h) = None
     \<and> FillText (gesture f) (- (lm_x (lms ! 9) * w)) (lm_y (lms ! 9) * h - 60 - 60 / 2)
          \<in> set (fst (drawHand m lms w h))"
proof -
  obtain f where f: "fingerStates lms = Some f"
    using fingerStates_Some [OF assms] by simp
  have fields: "indexExtended f = (lm_y (lms ! 8) < lm_y (lms ! 6))"
    "middleExtended f = (lm_y (lms ! 12) < lm_y (lms ! 10))"
    "ringExtended f = (lm_y (lms ! 16) < lm_y (lms ! 14))"
    "pinkyExtended f = (lm_y (lms ! 20) < lm_y (lms ! 18))"
    using f fingerStates_Some [OF assms] by auto
  have thumb: "indexExtended f \<and> middleExtended f \<and> \<not> ringExtended f \<and> \<not> pinkyExtended f
          \<longrightarrow> (\<forall>t. gesture (f\<lparr> thumbExtended := t \<rparr>) = ''SCISSORS'')"
    by (simp add: gesture_cases)
  have drawn: "snd (drawHand m lms w h) = None"
    "FillText (gesture f) (- (lm_x (lms ! 9) * w)) (lm_y (lms ! 9) * h - 60 - 60 / 2)
          \<in> set (fst (drawHand m lms w h))"
    using gestureBanner_label [of f "lms ! 9" w h m]
    by (simp_all add: drawHand_ok [OF assms f])
  show ?thesis
    using f fields thumb drawn gesture_cases [of f] by blast
qed

theorem gesture_precedence_witness:
  "21 \<le> length scissorsHand \<and>
   (\<exists>f. fingerStates scissorsHand = Some f \<and> thumbExtended f \<and> extendedCount f = 3
        \<and> gesture f = ''SCISSORS'')"
proof -
  have len: "21 \<le> length scissorsHand"
    by (simp add: scissorsHand_def)
  from gesture_precedence [OF len, of "\<lambda>_. 0" 1 1]
  obtain f where f: "fingerStates scissorsHand = Some f"
    and g: "gesture f =
         (if indexExtended f \<and> middleExtended f \<and> \<not> ringExtended f \<and> \<not> pinkyExtended f
            then ''SCISSORS''
          else if extendedCount f \<le> 1 then ''ROCK''
          else if extendedCount f = 5 then ''PAPER''
          else ''??? ('' @ string_of_nat (extendedCount f) @ '')'')"
    by blast
  have v: "f = \<lparr> indexExtended = True, middleExtended = True, ringExtended = False,
                pinkyExtended = False, thumbExtended = True \<rparr>"
    using f by (simp add: fingerStates_Some [OF len]) (simp add: scissorsHand_def)
  show ?thesis
    using len f g by (simp add: v extendedCount_sum)
qed

text \<open>
  Claim C10.  For every hand landmark set, the label is ROCK exactly when the count of
  extended fingers is at most 1 and PAPER exactly when it is 5, although the SCISSORS
  branch is tested first: the SCISSORS pattern forces the count to be 2 or 3.
\<close>

theorem scissors_never_masks:
  assumes "21 \<le> length lms"
  shows "\<exists>f. fingerStates lms = Some f
     \<and> (gesture f = ''ROCK'' \<longleftrightarrow> extendedCount f \<le> 1)
     \<and> (gesture f = ''PAPER'' \<longleftrightarrow> extendedCount f = 5)
     \<and> (indexExtended f \<and> middleExtended f \<and> \<not> ringExtended f \<and> \<not> pinkyExtended f
          \<longrightarrow> extendedCount f \<in> {2, 3})"
proof -
  obtain f where f: "fingerStates lms = Some f"
    using fingerStates_Some [OF assms] by simp
  have "gesture f = ''ROCK'' \<longleftrightarrow> extendedCount f \<le> 1"
    by (auto simp: gesture_cases scissors_count)
  moreover have "gesture f = ''PAPER'' \<longleftrightarrow> extendedCount f = 5"
    by (auto simp: gesture_cases scissors_count)
  moreover have "indexExtended f \<and> middleExtended f \<and> \<not> ringExtended f \<and> \<not> pinkyExtended f
          \<longrightarrow> extendedCount f \<in> {2, 3}"
    by (simp add: scissors_count)
  ultimately show ?thesis using f by blast
qed

theorem scissors_never_masks_witness:
  "21 \<le> length scissorsHand \<and>
   (\<exists>f. fingerStates scissorsHand = Some f \<and> gesture f \<noteq> ''ROCK'' \<and> gesture f \<noteq> ''PAPER''
        \<and> extendedCount f = 3)"
proof -
  have len: "21 \<le> length scissorsHand"
    by (simp add: scissorsHand_def)
  from scissors_never_masks [OF len]
  obtain f where f: "fingerStates scissorsHand = Some f"
    and r: "gesture f = ''ROCK'' \<longleftrightarrow> extendedCount f \<le> 1"
    and p: "gesture f = ''PAPER'' \<longleftrightarrow> extendedCount f = 5"
    by blast
  have v: "f = \<lparr> indexExtended = True, middleExtended = True, ringExtended = False,
                pinkyExtended = False, thumbExtended = True \<rparr>"
    using f by (simp add: fingerStates_Some [OF len]) (simp add: scissorsHand_def)
  have c: "extendedCount f = 3"
    by (simp add: v extendedCount_sum)
  show ?thesis
    using len f r p c by auto
qed

section \<open>Face filter radius\<close>

lemma radius_clamp: "radius d = spec_clamp (0.15 * d) 10 80"
  by (simp add: radius_def spec_clamp_def max_def min_def mult.commute)

lemma radius_mono: "d \<le> d' \<Longrightarrow> radius d \<le> radius d'"
  by (simp add: radius_def max_def min_def)

lemma noseGeometry_Some:
  assumes "454 < length lms"
  shows "noseGeometry lms w h =
     Some (lm_x (lms ! 4) * w, lm_y (lms ! 4) * h,
           radius (cheekDistance (lms ! 234) (lms ! 454) w h))"
  using assms by (simp add: noseGeometry_def elem_at_def Let_def)

lemma drawFace_nose:
  assumes "noseGeometry lms w h = Some (noseX, noseY, r)"
  shows "Arc noseX noseY r 0 (2 * pi) \<in> set (fst (drawFace lms w h))"
  using assms by (simp add: drawFace_def andThen_ok noseOps_def Let_def)

text \<open>
  Claim C3.  For every detected face (a landmark list that has the cheek landmarks 234
  and 454), the radius of the nose is the clamp of 0.15 times the cheek distance to the
  interval from 10 to 80, where the cheek distance is the Euclidean distance of the two
  cheek landmarks after multiplication by the width and height of the frame; this radius
  is the one of the circle that \<open>drawFace\<close> draws at the nose tip.  The radius is
  non-decreasing in the cheek distance, it is 10 when 0.15 times the distance is at most
  10, and 80 when 0.15 times the distance is at least 80.
\<close>

theorem nose_radius_clamp:
  assumes "454 < length lms"
  shows "(\<exists>d. d = sqrt ((lm_x (lms ! 454) * w - lm_x (lms ! 234) * w)\<^sup>2 +
                    (lm_y (lms ! 454) * h - lm_y (lms ! 234) * h)\<^sup>2)
          \<and> cheekDistance (lms ! 234) (lms ! 454) w h = d
          \<and> noseGeometry lms w h =
              Some (lm_x (lms ! 4) * w, lm_y (lms ! 4) * h, spec_clamp (0.15 * d) 10 80)
          \<and> Arc (lm_x (lms ! 4) * w) (lm_y (lms ! 4) * h) (spec_clamp (0.15 * d) 10 80)
                0 (2 * pi) \<in> set (fst (drawFace lms w h)))
     \<and> (\<forall>d d'. d \<le> d' \<longrightarrow> radius d \<le> radius d')
     \<and> (\<forall>d. 0.15 * d \<le> 10 \<longrightarrow> radius d = 10)
     \<and> (\<forall>d. 80 \<le> 0.15 * d \<longrightarrow> radius d = 80)
     \<and> (\<forall>d. 10 \<le> radius d \<and> radius d \<le> 80)"
proof -
  let ?d = "cheekDistance (lms ! 234) (lms ! 454) w h"
  have dist: "?d = sqrt ((lm_x (lms ! 454) * w - lm_x (lms ! 234) * w)\<^sup>2 +
                    (lm_y (lms ! 454) * h - lm_y (lms ! 234) * h)\<^sup>2)"
    by (simp add: cheekDistance_def left_diff_distrib)
  have geo: "noseGeometry lms w h =
      Some (lm_x (lms ! 4) * w, lm_y (lms ! 4) * h, spec_clamp (0.15 * ?d) 10 80)"
    using noseGeometry_Some [OF assms] by (simp add: radius_clamp)
  have arc: "Arc (lm_x (lms ! 4) * w) (lm_y (lms ! 4) * h) (spec_clamp (0.15 * ?d) 10 80)
                0 (2 * pi) \<in> set (fst (drawFace lms w h))"
    by (rule drawFace_nose [OF geo])
  have lo: "\<forall>d. 0.15 * d \<le> 10 \<longrightarrow> radius d = 10"
    by (simp add: radius_def max_def min_def)
  have hi: "\<forall>d. 80 \<le> 0.15 * d \<longrightarrow> radius d = 80"
    by (simp add: radius_def max_def min_def)
  have rng: "\<forall>d. 10 \<le> radius d \<and> radius d \<le> 80"
    by (simp add: radius_def max_def min_def)
  show ?thesis
    using dist geo arc lo hi rng radius_mono by metis
qed

theorem nose_radius_clamp_witness:
  "454 < length sampleFace \<and>
   noseGeometry sampleFace 1000 1000 = Some (500, 500, 30) \<and> radius 40 = 10 \<and> radius 600 = 80"
proof -
  have len: "454 < length sampleFace"
    by (simp add: sampleFace_def)
  have d: "sqrt ((lm_x (sampleFace ! 454) * 1000 - lm_x (sampleFace ! 234) * 1000)\<^sup>2 +
                    (lm_y (sampleFace ! 454) * 1000 - lm_y (sampleFace ! 234) * 1000)\<^sup>2) = 200"
    by (simp add: sampleFace_def)
  have n: "lm_x (sampleFace ! 4) = 0.5" "lm_y (sampleFace ! 4) = 0.5"
    by (simp_all add: sampleFace_def)
  show ?thesis
    using len nose_radius_clamp [OF len, of 1000 1000]
    by (simp add: d n spec_clamp_def)
qed

section \<open>Victory pose\<close>

lemma isVictory_Some:
  assumes "16 < length lms"
  shows "isVictory lms =
     Some (lm_y (lms ! 15) < lm_y (lms ! 0) \<and> lm_y (lms ! 16) < lm_y (lms ! 0))"
  using assms by (auto simp: isVictory_def elem_at_def)

lemma forEach_ops:
  "x \<in> set (fst (forEach f xs)) \<Longrightarrow> \<exists>a \<in> set xs. x \<in> set (fst (f a))"
  by (induction xs) (auto simp: andThen_def split: option.splits)

lemma poseConnection_ok: "snd (poseConnection lms w h a) = None"
  by (simp add: poseConnection_def split: prod.split option.split)

lemma poseConnection_ops: "FillText s u v \<notin> set (fst (poseConnection lms w h a))"
  by (simp add: poseConnection_def split: prod.split option.split)

lemma poseMarker_ok: "snd (poseMarker w h a) = None"
  by (simp add: poseMarker_def split: prod.split)

lemma poseMarker_ops: "FillText s u v \<notin> set (fst (poseMarker w h a))"
  by (simp add: poseMarker_def split: prod.split)

lemma drawPose_ok:
  assumes "16 < length lms" and "isVictory lms = Some v"
  shows "drawPose lms w h =
           ([StrokeStyle ''#00FFFF'', LineWidth 3]
              @ fst (forEach (poseConnection lms w h) POSE_CONNECTIONS)
              @ fst (forEach (poseMarker w h) (zip lms [0 ..< length lms]))
              @ (if v then victoryBanner w h else [])
              @ [FillStyle ''#FF00FF'', BeginPath]
              @ wristOps (lms ! 15) w h
              @ instructionOps (lms ! 16) w h, None)"
proof -
  have wrists: "elem_at lms 15 = Some (lms ! 15)" "elem_at lms 16 = Some (lms ! 16)"
    using assms(1) by (simp_all add: elem_at_def)
  have conn: "snd (forEach (poseConnection lms w h) POSE_CONNECTIONS) = None"
    by (rule snd_forEach_None) (rule poseConnection_ok)
  have marks: "snd (forEach (poseMarker w h) (zip lms [0 ..< length lms])) = None"
    by (rule snd_forEach_None) (rule poseMarker_ok)
  show ?thesis
    by (simp add: drawPose_def andThen_ok conn marks assms(2) wrists emit_def)
qed

lemma victory_banner_drawn:
  assumes "16 < length lms"
  shows "FillText ''VICTORY!'' (- w / 2) (h / 2) \<in> set (fst (drawPose lms w h))
           \<longleftrightarrow> isVictory lms = Some True"
proof -
  obtain v where v: "isVictory lms = Some v"
    using isVictory_Some [OF assms] by simp
  have a: "FillText ''VICTORY!'' (- w / 2) (h / 2)
             \<notin> set (fst (forEach (poseConnection lms w h) POSE_CONNECTIONS))"
    using forEach_ops poseConnection_ops by fastforce
  have b: "FillText ''VICTORY!'' (- w / 2) (h / 2)
             \<notin> set (fst (forEach (poseMarker w h) (zip lms [0 ..< length lms])))"
    using forEach_ops poseMarker_ops by fastforce
  have c: "FillText ''VICTORY!'' (- w / 2) (h / 2) \<notin> set (wristOps (lms ! 15) w h)"
    by (simp add: wristOps_def)
  have d: "FillText ''VICTORY!'' (- w / 2) (h / 2) \<notin> set (instructionOps (lms ! 16) w h)"
    by (simp add: instructionOps_def)
  have e: "FillText ''VICTORY!'' (- w / 2) (h / 2) \<in> set (victoryBanner w h)"
    by (simp add: victoryBanner_def)
  show ?thesis
    using a b c d e by (simp add: drawPose_ok [OF assms v] v)
qed

text \<open>
  Claim C4.  For every detected body (a landmark list that has the wrist landmarks 15
  and 16), the pose is a victory if and only if both wrists have a vertical coordinate
  strictly below the one of the nose (landmark 0); it is not when either wrist is level
  with the nose or lower in the image; exchanging the two wrists does not change the
  result.  The banner is drawn exactly for a victory.
\<close>

theorem victory_iff_both_wrists_above_nose:
  assumes "16 < length lms"
  shows "isVictory lms =
           Some (lm_y (lms ! 15) < lm_y (lms ! 0) \<and> lm_y (lms ! 16) < lm_y (lms ! 0))
     \<and> (lm_y (lms ! 0) \<le> lm_y (lms ! 15) \<or> lm_y (lms ! 0) \<le> lm_y (lms ! 16)
          \<longrightarrow> isVictory lms = Some False)
     \<and> isVictory (lms[15 := lms ! 16, 16 := lms ! 15]) = isVictory lms
     \<and> (FillText ''VICTORY!'' (- w / 2) (h / 2) \<in> set (fst (drawPose lms w h))
          \<longleftrightarrow> isVictory lms = Some True)"
proof -
  have swap: "16 < length (lms[15 := lms ! 16, 16 := lms ! 15])"
    using assms by simp
  have "isVictory (lms[15 := lms ! 16, 16 := lms ! 15]) = isVictory lms"
    using assms by (auto simp: isVictory_Some [OF swap] isVictory_Some [OF assms])
  then show ?thesis
    using isVictory_Some [OF assms] victory_banner_drawn [OF assms, of w h] by auto
qed

theorem victory_iff_both_wrists_above_nose_witness:
  "16 < length samplePose \<and> isVictory samplePose = Some True
   \<and> isVictory (samplePose[15 := samplePose ! 16, 16 := samplePose ! 15]) = Some True
   \<and> isVictory (samplePose[16 := \<lparr> lm_x = 0.7, lm_y = 0.4 \<rparr>]) = Some False"
proof -
  have len: "16 < length samplePose"
    by (simp add: samplePose_def)
  have len': "16 < length (samplePose[16 := \<lparr> lm_x = 0.7, lm_y = 0.4 \<rparr>])"
    by (simp add: samplePose_def)
  have y: "lm_y (samplePose ! 0) = 0.4" "lm_y (samplePose ! 15) = 0.2"
    "lm_y (samplePose ! 16) = 0.3"
    by (simp_all add: samplePose_def)
  show ?thesis
    using len victory_iff_both_wrists_above_nose [OF len, of 1 1]
      victory_iff_both_wrists_above_nose [OF len', of 1 1]
    by (simp add: y)
qed

section \<open>Frame loop and FPS accounting\<close>

lemma processFrame_idle:
  assumes "\<not> enabled opts \<or> videoElement opts = None \<or> canvasElement opts = None \<or> isLoading life"
  shows "processFrame opts life now st ts =
           \<lparr> after = st\<lparr> pendingFrame := True \<rparr>, drawn = [], logged = None, published = None \<rparr>"
  using assms by (simp add: processFrame_def)

lemma processFrame_no_context:
  assumes "enabled opts" "videoElement opts = Some video" "canvasElement opts = Some canvas"
    "\<not> isLoading life" "context2d canvas = None"
  shows "processFrame opts life now st ts =
           \<lparr> after = st, drawn = [], logged = None, published = None \<rparr>"
  using assms by (simp add: processFrame_def)

lemma processFrame_active:
  assumes "enabled opts" "videoElement opts = Some video" "canvasElement opts = Some canvas"
    "\<not> isLoading life" "context2d canvas = Some ctx"
  shows "processFrame opts life now st ts =
           \<lparr> after = (fst (updateFps st ts))\<lparr> lastTimeRef := ts, pendingFrame := True \<rparr>,
             drawn = ClearRect 0 0 (canvas_width canvas) (canvas_height canvas)
                       # fst (detectAndDraw (mode opts) life video canvas ctx now),
             logged = snd (detectAndDraw (mode opts) life video canvas ctx now),
             published = snd (updateFps st ts) \<rparr>"
  using assms by (simp add: processFrame_def Let_def split: prod.split)

lemma processFrame_cases:
  obtains (idle) "\<not> enabled opts \<or> videoElement opts = None \<or> canvasElement opts = None \<or> isLoading life"
  | (no_context) video canvas where "enabled opts" "videoElement opts = Some video"
      "canvasElement opts = Some canvas" "\<not> isLoading life" "context2d canvas = None"
  | (active) video canvas ctx where "enabled opts" "videoElement opts = Some video"
      "canvasElement opts = Some canvas" "\<not> isLoading life" "context2d canvas = Some ctx"
proof (cases "\<not> enabled opts \<or> videoElement opts = None \<or> canvasElement opts = None \<or> isLoading life")
  case True
  then show ?thesis by (rule idle)
next
  case False
  then obtain video canvas where vc: "videoElement opts = Some video"
      "canvasElement opts = Some canvas"
    by auto
  show ?thesis
  proof (cases "context2d canvas")
    case None
    with False vc show ?thesis by (intro no_context [of video canvas]) simp_all
  next
    case (Some ctx)
    with False vc show ?thesis by (intro active [of video canvas ctx]) simp_all
  qed
qed

lemma updateFps_eq:
  "updateFps st t =
     (let start = (if fpsTimeRef st = 0 then t else fpsTimeRef st);
          elapsed = t - start;
          counter = frameCountRef st + 1
      in if elapsed \<ge> 1000
         then (st\<lparr> fps := Math_round (real counter * 1000 / elapsed),
                   frameCountRef := 0, fpsTimeRef := t \<rparr>,
               Some (Math_round (real counter * 1000 / elapsed)))
         else (st\<lparr> frameCountRef := counter, fpsTimeRef := start \<rparr>, None))"
  by (simp add: updateFps_def Let_def)

lemma Math_round_nearest: "\<bar>real_of_int (Math_round r) - r\<bar> \<le> 1 / 2"
  unfolding Math_round_def by linarith

lemma updateFps_window:
  assumes "in_window t0 st" "t0 \<le> ts" "ts < t0 + 1000"
  shows "snd (updateFps st ts) = None \<and> fps (fst (updateFps st ts)) = fps st
         \<and> in_window t0 (fst (updateFps st ts))"
  using assms by (auto simp: updateFps_eq in_window_def Let_def)

lemma processFrame_window:
  assumes "in_window t0 st" "t0 \<le> ts" "ts < t0 + 1000"
  shows "published (processFrame opts life now (st\<lparr> pendingFrame := p \<rparr>) ts) = None
         \<and> fps (after (processFrame opts life now (st\<lparr> pendingFrame := p \<rparr>) ts)) = fps st
         \<and> in_window t0 (after (processFrame opts life now (st\<lparr> pendingFrame := p \<rparr>) ts))"
proof (cases opts life rule: processFrame_cases)
  case idle
  then show ?thesis
    using assms(1) by (simp add: processFrame_idle in_window_def)
next
  case (no_context video canvas)
  then show ?thesis
    using assms(1) by (simp add: processFrame_no_context in_window_def)
next
  case (active video canvas ctx)
  have "in_window t0 (st\<lparr> pendingFrame := p \<rparr>)"
    using assms(1) by (simp add: in_window_def)
  from updateFps_window [OF this assms(2,3)] show ?thesis
    by (simp add: processFrame_active [OF active] in_window_def)
qed

lemma runLoop_window:
  assumes "in_window t0 st"
    and "\<forall>(opts, life, now, ts) \<in> set refreshes. t0 \<le> ts \<and> ts < t0 + 1000"
  shows "\<forall>tk \<in> set (runLoop st refreshes). published tk = None \<and> fps (after tk) = fps st"
  using assms
proof (induction refreshes arbitrary: st)
  case Nil
  then show ?case by simp
next
  case (Cons r refreshes)
  obtain opts life now ts where r: "r = (opts, life, now, ts)"
    by (cases r) auto
  from Cons.prems(2) r have ts: "t0 \<le> ts" "ts < t0 + 1000"
    and rest: "\<forall>(opts, life, now, ts) \<in> set refreshes. t0 \<le> ts \<and> ts < t0 + 1000"
    by auto
  show ?case
  proof (cases "pendingFrame st")
    case False
    then show ?thesis
      using Cons.IH [OF Cons.prems(1) rest] r by simp
  next
    case True
    let ?t = "processFrame opts life now (st\<lparr> pendingFrame := False \<rparr>) ts"
    from processFrame_window [OF Cons.prems(1) ts, of opts life now False]
    have t: "published ?t = None" "fps (after ?t) = fps st" "in_window t0 (after ?t)"
      by simp_all
    from Cons.IH [OF t(3) rest] t(1,2) True r show ?thesis
      by (simp add: Let_def)
  qed
qed

text \<open>
  Claim C5.  The FPS step keeps a frame counter and a window start: it increments the
  counter, takes the timestamp as window start when none is set, and when the time
  elapsed since the window start is at least 1000 it publishes the rounding of
  counter * 1000 / elapsed, sets the counter to zero and the window start to the
  timestamp of the tick; otherwise it publishes nothing.  The rounding is to a nearest
  integer.  A tick that reaches the step takes its published value and its counters from
  it.  In a run that starts with no window start set, no value is published while all
  timestamps lie less than 1000 after the first one.
\<close>

theorem fps_accounting:
  "updateFps st t =
     (let start = (if fpsTimeRef st = 0 then t else fpsTimeRef st);
          elapsed = t - start;
          counter = frameCountRef st + 1
      in if elapsed \<ge> 1000
         then (st\<lparr> fps := Math_round (real counter * 1000 / elapsed),
                   frameCountRef := 0, fpsTimeRef := t \<rparr>,
               Some (Math_round (real counter * 1000 / elapsed)))
         else (st\<lparr> frameCountRef := counter, fpsTimeRef := start \<rparr>, None))
   \<and> \<bar>real_of_int (Math_round r) - r\<bar> \<le> 1 / 2
   \<and> (enabled opts \<and> videoElement opts = Some video \<and> canvasElement opts = Some canvas
        \<and> \<not> isLoading life \<and> context2d canvas = Some ctx
      \<longrightarrow> published (processFrame opts life now st t) = snd (updateFps st t)
        \<and> fps (after (processFrame opts life now st t)) = fps (fst (updateFps st t))
        \<and> frameCountRef (after (processFrame opts life now st t))
            = frameCountRef (fst (updateFps st t))
        \<and> fpsTimeRef (after (processFrame opts life now st t))
            = fpsTimeRef (fst (updateFps st t)))
   \<and> (fpsTimeRef st0 = 0
        \<and> (\<forall>(opts, life, now, ts) \<in> set refreshes. t0 \<le> ts \<and> ts < t0 + 1000)
      \<longrightarrow> (\<forall>tk \<in> set (runLoop st0 refreshes). published tk = None \<and> fps (after tk) = fps st0))"
proof -
  have tick: "enabled opts \<and> videoElement opts = Some video \<and> canvasElement opts = Some canvas
        \<and> \<not> isLoading life \<and> context2d canvas = Some ctx
      \<longrightarrow> published (processFrame opts life now st t) = snd (updateFps st t)
        \<and> fps (after (processFrame opts life now st t)) = fps (fst (updateFps st t))
        \<and> frameCountRef (after (processFrame opts life now st t))
            = frameCountRef (fst (updateFps st t))
        \<and> fpsTimeRef (after (processFrame opts life now st t))
            = fpsTimeRef (fst (updateFps st t))"
    by (simp add: processFrame_active)
  have run: "fpsTimeRef st0 = 0
        \<and> (\<forall>(opts, life, now, ts) \<in> set refreshes. t0 \<le> ts \<and> ts < t0 + 1000)
      \<longrightarrow> (\<forall>tk \<in> set (runLoop st0 refreshes). published tk = None \<and> fps (after tk) = fps st0)"
    using runLoop_window [of t0 st0 refreshes] by (simp add: in_window_def)
  show ?thesis
    using updateFps_eq [of st t] Math_round_nearest [of r] tick run by blast
qed

lemma sample_tick_pending:
  "pendingFrame (after (processFrame (sampleOptions m sampleCanvas) (readyLifecycle d) now st ts))"
  by (simp add: processFrame_active [of _ sampleVideo sampleCanvas _ "\<lambda>_. 100"]
      sampleOptions_def sampleCanvas_def readyLifecycle_def)

theorem fps_accounting_witness:
  "updateFps \<lparr> fps = 0, frameCountRef = 59, fpsTimeRef = 100, lastTimeRef = 1083,
               pendingFrame = False \<rparr> 1100
     = (\<lparr> fps = 60, frameCountRef = 0, fpsTimeRef = 1100, lastTimeRef = 1083,
          pendingFrame = False \<rparr>, Some 60)
   \<and> map published
       (runLoop requested
         [(sampleOptions victory sampleCanvas, readyLifecycle emptyDetector, 5, 100),
          (sampleOptions victory sampleCanvas, readyLifecycle emptyDetector, 21, 600),
          (sampleOptions victory sampleCanvas, readyLifecycle emptyDetector, 37, 1099)])
     = [None, None, None]"
proof -
  let ?opts = "sampleOptions victory sampleCanvas"
  let ?life = "readyLifecycle emptyDetector :: unit lifecycle"
  let ?rs = "[(?opts, ?life, 5::real, 100::real), (?opts, ?life, 21, 600), (?opts, ?life, 37, 1099)]"
  let ?s = "\<lparr> fps = 0, frameCountRef = 59, fpsTimeRef = 100, lastTimeRef = 1083,
               pendingFrame = False \<rparr>"
  note inst = fps_accounting [of ?s 1100 0 ?opts sampleVideo sampleCanvas ?life "\<lambda>_. 100" 0
      requested ?rs 100]
  have step: "updateFps ?s 1100
     = (\<lparr> fps = 60, frameCountRef = 0, fpsTimeRef = 1100, lastTimeRef = 1083,
          pendingFrame = False \<rparr>, Some 60)"
    using inst by (simp add: Math_round_def)
  have len: "length (runLoop requested ?rs) = 3"
    by (simp add: requested_def initialLoop_def Let_def sample_tick_pending)
  have pre: "fpsTimeRef requested = 0
        \<and> (\<forall>(opts, life, now, ts) \<in> set ?rs. 100 \<le> ts \<and> ts < 100 + 1000)"
    by (simp add: requested_def initialLoop_def)
  with inst have "\<forall>tk \<in> set (runLoop requested ?rs). published tk = None"
    by blast
  then have "map published (runLoop requested ?rs) = replicate (length (runLoop requested ?rs)) None"
    by (simp add: map_replicate_const [symmetric] cong: map_cong)
  with len have "map published (runLoop requested ?rs) = [None, None, None]"
    by (simp add: numeral_3_eq_3)
  with step show ?thesis by simp
qed



text \<open>
  A tick leaves a request pending exactly when it is stopped by the gate or has obtained
  a 2-D context: the return of line 118 is the one path without a request.
\<close>

lemma processFrame_reschedules_iff:
  "pendingFrame (after (processFrame opts life now (st\<lparr> pendingFrame := False \<rparr>) ts))
     \<longleftrightarrow> (\<not> enabled opts \<or> videoElement opts = None \<or> canvasElement opts = None
            \<or> isLoading life)
          \<or> (\<exists>canvas ctx. canvasElement opts = Some canvas \<and> context2d canvas = Some ctx)"
proof (cases opts life rule: processFrame_cases)
  case idle
  then show ?thesis
    by (simp add: processFrame_idle)
next
  case (no_context video canvas)
  then show ?thesis
    by (simp add: processFrame_no_context)
next
  case (active video canvas ctx)
  then show ?thesis
    by (simp add: processFrame_active [OF active])
qed

text \<open>
  Claim C2 says that a next tick is requested at the end of every tick, whatever branch
  is taken.  The tick in which \<^verbatim>\<open>getContext('2d')\<close> gives \<^verbatim>\<open>null\<close> does not: it
  returns at line 118 with no request pending, and of three display refreshes only the
  first runs a tick.
\<close>

theorem processFrame_without_context_stops:
  "processFrame (sampleOptions victory noContextCanvas) (readyLifecycle emptyDetector) 5
       initialLoop 16
     = \<lparr> after = initialLoop, drawn = [], logged = None, published = None \<rparr>
   \<and> \<not> pendingFrame initialLoop
   \<and> runLoop requested
       [(sampleOptions victory noContextCanvas, readyLifecycle emptyDetector, 5, 16),
        (sampleOptions victory noContextCanvas, readyLifecycle emptyDetector, 21, 32),
        (sampleOptions victory sampleCanvas, readyLifecycle emptyDetector, 37, 48)]
     = [\<lparr> after = initialLoop, drawn = [], logged = None, published = None \<rparr>]"
  by (simp add: processFrame_def sampleOptions_def noContextCanvas_def readyLifecycle_def
      initialLoop_def requested_def)

theorem processFrame_without_context_stops_witness:
  "\<not> pendingFrame (after (processFrame (sampleOptions victory noContextCanvas)
       (readyLifecycle emptyDetector) 5 initialLoop 16))
   \<and> length (runLoop requested
       [(sampleOptions victory noContextCanvas, readyLifecycle emptyDetector, 5, 16),
        (sampleOptions victory noContextCanvas, readyLifecycle emptyDetector, 21, 32),
        (sampleOptions victory sampleCanvas, readyLifecycle emptyDetector, 37, 48)]) = 1"
  using processFrame_without_context_stops by simp

text \<open>
  Claim C7.  When detection or drawing throws in a tick that has passed the gate and
  has a context, the value thrown is logged in that tick, the statements after the
  \<^verbatim>\<open>try\<close> block run (the last timestamp is recorded, the next frame is requested),
  and the tick of the following display refresh runs.
\<close>

theorem tick_failure_is_isolated:
  assumes "enabled opts" and "videoElement opts = Some video"
    and "canvasElement opts = Some canvas" and "\<not> isLoading life"
    and "context2d canvas = Some ctx"
    and "snd (detectAndDraw (mode opts) life video canvas ctx now) = Some e"
    and "pendingFrame st"
  shows "\<exists>t1. runLoop st [(opts, life, now, ts), (opts', life', now', ts')]
            = [t1, processFrame opts' life' now' ((after t1)\<lparr> pendingFrame := False \<rparr>) ts']
          \<and> t1 = processFrame opts life now (st\<lparr> pendingFrame := False \<rparr>) ts
          \<and> logged t1 = Some e
          \<and> pendingFrame (after t1)
          \<and> lastTimeRef (after t1) = ts"
  using assms(6,7) by (simp add: processFrame_active [OF assms(1-5)] Let_def)

theorem tick_failure_is_isolated_witness:
  "length (runLoop requested
      [(sampleOptions clown_nose sampleCanvas, readyLifecycle throwingDetector, 5, 16),
       (sampleOptions clown_nose sampleCanvas, readyLifecycle emptyDetector, 21, 32)]) = 2
   \<and> map logged (runLoop requested
      [(sampleOptions clown_nose sampleCanvas, readyLifecycle throwingDetector, 5, 16),
       (sampleOptions clown_nose sampleCanvas, readyLifecycle emptyDetector, 21, 32)])
     = [Some (Error ''detection failed''), None]
   \<and> map logged (runLoop requested
      [(sampleOptions rock_paper sampleCanvas, readyLifecycle brokenHandDetector, 5, 16),
       (sampleOptions rock_paper sampleCanvas, readyLifecycle emptyDetector, 21, 32)])
     = [Some TypeError, None]"
proof -
  let ?bad = "readyLifecycle throwingDetector :: unit lifecycle"
  let ?broken = "readyLifecycle brokenHandDetector :: unit lifecycle"
  let ?good = "readyLifecycle emptyDetector :: unit lifecycle"
  let ?ctx = "\<lambda>_::string. 100::real"
  have e1: "snd (detectAndDraw (mode (sampleOptions clown_nose sampleCanvas)) ?bad sampleVideo
               sampleCanvas ?ctx 5) = Some (Error ''detection failed'')"
    by (simp add: detectAndDraw_def sampleOptions_def readyLifecycle_def throwingDetector_def
        sampleVideo_def throw_def)
  have e2: "snd (detectAndDraw (mode (sampleOptions rock_paper sampleCanvas)) ?broken sampleVideo
               sampleCanvas ?ctx 5) = Some TypeError"
    by (simp add: detectAndDraw_def sampleOptions_def readyLifecycle_def brokenHandDetector_def
        sampleVideo_def drawRockPaper_def drawHand_def HAND_CONNECTIONS_def handConnection_def
        andThen_def emit_def deref_def elem_at_def throw_def)
  have ok: "logged (processFrame (sampleOptions m sampleCanvas) ?good now st ts) = None" for m now st ts
    by (cases m)
      (simp_all add: processFrame_active [of _ sampleVideo sampleCanvas _ ?ctx]
        sampleOptions_def sampleCanvas_def readyLifecycle_def detectAndDraw_def
        emptyDetector_def emptyResult_def sampleVideo_def drawClownNose_def drawRockPaper_def
        drawVictory_def noHandPrompt_def noBodyPrompt_def)
  have act: "enabled (sampleOptions m sampleCanvas)"
    "videoElement (sampleOptions m sampleCanvas) = Some sampleVideo"
    "canvasElement (sampleOptions m sampleCanvas) = Some sampleCanvas"
    "context2d sampleCanvas = Some ?ctx" for m
    by (simp_all add: sampleOptions_def sampleCanvas_def)
  have l: "\<not> isLoading ?bad" "\<not> isLoading ?broken"
    by (simp_all add: readyLifecycle_def)
  have p: "pendingFrame requested"
    by (simp add: requested_def)
  from tick_failure_is_isolated [OF act(1-3) l(1) act(4) e1 p,
      of 16 "sampleOptions clown_nose sampleCanvas" ?good 21 32]
    tick_failure_is_isolated [OF act(1-3) l(2) act(4) e2 p,
      of 16 "sampleOptions rock_paper sampleCanvas" ?good 21 32]
  show ?thesis
    by (auto simp: ok)
qed

section \<open>Missing subject\<close>

text \<open>
  Claim C8.  With no landmark set in the detection result (the field empty or absent),
  \<^verbatim>\<open>drawClownNose\<close> draws nothing, \<^verbatim>\<open>drawRockPaper\<close> and \<^verbatim>\<open>drawVictory\<close>
  draw their centred prompt, and none of them throws; so in every mode detection and
  drawing with detectors that find nothing does not throw.
\<close>

theorem no_subject_paths:
  "drawClownNose (r\<lparr> faceLandmarks := Some [] \<rparr>) w h = ([], None)
   \<and> drawClownNose (r\<lparr> faceLandmarks := None \<rparr>) w h = ([], None)
   \<and> drawRockPaper m (r\<lparr> landmarks := Some [] \<rparr>) w h
       = ([Save, Scale (- 1) 1, FillStyle ''#00FFFF'', Font ''bold 32px Inter, sans-serif'',
           TextAlign ''center'', FillText ''Show your hand!'' (- w / 2) (h / 2), Restore], None)
   \<and> drawRockPaper m (r\<lparr> landmarks := None \<rparr>) w h
       = drawRockPaper m (r\<lparr> landmarks := Some [] \<rparr>) w h
   \<and> drawVictory (r\<lparr> landmarks := Some [] \<rparr>) w h
       = ([Save, Scale (- 1) 1, FillStyle ''#00FFFF'', Font ''bold 24px Inter, sans-serif'',
           TextAlign ''center'',
           FillText ''Stand back so full body is visible'' (- w / 2) (h / 2), Restore], None)
   \<and> drawVictory (r\<lparr> landmarks := None \<rparr>) w h
       = drawVictory (r\<lparr> landmarks := Some [] \<rparr>) w h
   \<and> snd (detectAndDraw md (readyLifecycle emptyDetector) video canvas m now) = None"
proof -
  have "snd (detectAndDraw md (readyLifecycle emptyDetector) video canvas m now) = None"
    by (cases md)
      (simp_all add: detectAndDraw_def readyLifecycle_def emptyDetector_def emptyResult_def
        drawClownNose_def drawRockPaper_def drawVictory_def noHandPrompt_def noBodyPrompt_def)
  then show ?thesis
    by (simp add: drawClownNose_def drawRockPaper_def drawVictory_def noHandPrompt_def
        noBodyPrompt_def emit_def)
qed

theorem no_subject_paths_witness:
  "drawClownNose emptyResult 1280 720 = ([], None)
   \<and> fst (drawRockPaper (\<lambda>_. 100) emptyResult 1280 720) ! 5
       = FillText ''Show your hand!'' (- 640) 360
   \<and> fst (drawVictory emptyResult 1280 720) ! 5
       = FillText ''Stand back so full body is visible'' (- 640) 360"
  using no_subject_paths [of emptyResult 1280 720 "\<lambda>_. 100" clown_nose sampleVideo sampleCanvas 0]
  by (simp add: emptyResult_def)

section \<open>Initialization\<close>

lemma Promise_all_ok [simp]:
  "Promise_all order (Inr f) (Inr h) (Inr p) = Inr (f, h, p)"
  by (simp add: Promise_all_def)

lemma Promise_all_rejects:
  assumes "\<not> (\<exists>f h p. face = Inr f \<and> hand = Inr h \<and> pose = Inr p)"
  shows "Promise_all order face hand pose =
     (case concat (map (\<lambda>i. if i = 0 then rejection face
                                 else if i = 1 then rejection hand
                                 else if i = 2 then rejection pose else [])
                          (order @ [0, 1, 2])) of
            e # _ \<Rightarrow> Inl e
          | [] \<Rightarrow> Inl NonError)"
  using assms unfolding Promise_all_def
  by (cases face; cases hand; cases pose) (simp_all only: prod.case sum.case, simp_all)

lemma Promise_all_Inr:
  "Promise_all order face hand pose = Inr (f, h, p) \<longleftrightarrow> face = Inr f \<and> hand = Inr h \<and> pose = Inr p"
proof (cases "\<exists>f h p. face = Inr f \<and> hand = Inr h \<and> pose = Inr p")
  case True
  then show ?thesis by auto
next
  case False
  then have "\<And>t. Promise_all order face hand pose \<noteq> Inr t"
    by (simp add: Promise_all_rejects split: list.split)
  with False show ?thesis by blast
qed

lemma rejection_mem: "e \<in> set (rejection p) \<longleftrightarrow> p = Inl e"
  by (cases p) (auto simp: rejection_def)

lemma Promise_all_Inl:
  assumes "Promise_all order face hand pose = Inl e"
  shows "face = Inl e \<or> hand = Inl e \<or> pose = Inl e"
proof -
  let ?rej = "\<lambda>i::nat. if i = 0 then rejection face
                       else if i = 1 then rejection hand
                       else if i = 2 then rejection pose else []"
  let ?all = "concat (map ?rej (order @ [0, 1, 2]))"
  have failed: "\<not> (\<exists>f h p. face = Inr f \<and> hand = Inr h \<and> pose = Inr p)"
    using assms by auto
  then have ne: "rejection face @ rejection hand @ rejection pose \<noteq> []"
    by (cases face; cases hand; cases pose) (simp_all add: rejection_def)
  have parts: "?all = concat (map ?rej order) @ (rejection face @ rejection hand @ rejection pose)"
    by simp
  have "?all \<noteq> []"
    unfolding parts using ne by blast
  then obtain e' es where es: "?all = e' # es"
    by (cases ?all) blast+
  have "Promise_all order face hand pose = Inl e'"
    unfolding Promise_all_rejects [OF failed] es by simp
  with assms have "e' = e" by simp
  with es have "e \<in> set ?all"
    by simp
  then have "e \<in> set (rejection face) \<union> set (rejection hand) \<union> set (rejection pose)"
    by (auto split: if_splits)
  then show ?thesis
    by (auto simp: rejection_mem)
qed

lemma Promise_all_fails:
  assumes "(\<exists>e. face = Inl e) \<or> (\<exists>e. hand = Inl e) \<or> (\<exists>e. pose = Inl e)"
  shows "\<exists>e. Promise_all order face hand pose = Inl e"
proof (cases "Promise_all order face hand pose")
  case (Inl e)
  then show ?thesis by blast
next
  case (Inr t)
  then show ?thesis
    using assms Promise_all_Inr [of order face hand pose "fst t" "fst (snd t)" "snd (snd t)"]
    by auto
qed

text \<open>
  The guards of lines 50, 89 and 96: when the view has been unmounted by the time the
  resolver or the constructions settle, nothing is written after the start of
  initialization, which has set loading and cleared the error.
\<close>

lemma init_unmounted_untouched:
  fixes s0 :: "'v lifecycle" and vision :: "thrown + 'w"
  assumes "\<not> isMounted1 \<or> ((\<exists>v. vision = Inr v) \<and> \<not> isMounted2)"
  shows "initializeModels s0 vision isMounted1 order face hand pose isMounted2
          = s0\<lparr> isLoading := True, error := None \<rparr>"
  using assms
  by (cases vision; cases "Promise_all order face hand pose")
     (auto simp: initializeModels_def catchInit_def Let_def split: prod.splits)

text \<open>
  Claim C9.  In a mounted view, if one of the three constructions fails, the whole
  initialization fails: an error string is exposed (the message of a construction that
  failed, or the text \<^verbatim>\<open>Failed to load CV models\<close> for a thrown value that is not an
  \<^verbatim>\<open>Error\<close>), loading ends, and no detector is stored, whichever of the others
  succeeded.  The state is ready (loading false, no error) only when the resolver and all
  three constructions succeeded, and then the three refs hold the three detectors; this
  part needs no assumption on the view.
\<close>

theorem init_all_or_nothing:
  fixes s0 :: "'v lifecycle" and vision :: "thrown + 'w"
  shows
  "(((\<exists>e. face = Inl e) \<or> (\<exists>e. hand = Inl e) \<or> (\<exists>e. pose = Inl e))
      \<and> (\<exists>v. vision = Inr v) \<and> isMounted1 \<and> isMounted2
    \<longrightarrow> (\<exists>e. (face = Inl e \<or> hand = Inl e \<or> pose = Inl e)
            \<and> initializeModels s0 vision isMounted1 order face hand pose isMounted2
                = s0\<lparr> isLoading := False,
                      error := Some (case e of Error message \<Rightarrow> message
                                      | NonError \<Rightarrow> ''Failed to load CV models'') \<rparr>))
   \<and> (\<not> isLoading (initializeModels s0 vision isMounted1 order face hand pose isMounted2)
        \<and> error (initializeModels s0 vision isMounted1 order face hand pose isMounted2) = None
    \<longrightarrow> (\<exists>v f h p. vision = Inr v \<and> face = Inr f \<and> hand = Inr h \<and> pose = Inr p
            \<and> isMounted1 \<and> isMounted2
            \<and> initializeModels s0 vision isMounted1 order face hand pose isMounted2
                = s0\<lparr> isLoading := False, error := None, faceLandmarkerRef := Some f,
                      handLandmarkerRef := Some h, poseLandmarkerRef := Some p \<rparr>))"
proof (intro conjI impI)
  assume a: "((\<exists>e. face = Inl e) \<or> (\<exists>e. hand = Inl e) \<or> (\<exists>e. pose = Inl e))
      \<and> (\<exists>v. vision = Inr v) \<and> isMounted1 \<and> isMounted2"
  then obtain e where e: "Promise_all order face hand pose = Inl e"
    using Promise_all_fails [of face hand pose order] by blast
  from a obtain v where v: "vision = Inr v" by blast
  have "initializeModels s0 vision isMounted1 order face hand pose isMounted2
                = s0\<lparr> isLoading := False,
                      error := Some (case e of Error message \<Rightarrow> message
                                      | NonError \<Rightarrow> ''Failed to load CV models'') \<rparr>"
    using a by (simp add: initializeModels_def v e catchInit_def Let_def)
  with Promise_all_Inl [OF e]
  show "\<exists>e. (face = Inl e \<or> hand = Inl e \<or> pose = Inl e)
            \<and> initializeModels s0 vision isMounted1 order face hand pose isMounted2
                = s0\<lparr> isLoading := False,
                      error := Some (case e of Error message \<Rightarrow> message
                                      | NonError \<Rightarrow> ''Failed to load CV models'') \<rparr>"
    by blast
next
  assume r: "\<not> isLoading (initializeModels s0 vision isMounted1 order face hand pose isMounted2)
        \<and> error (initializeModels s0 vision isMounted1 order face hand pose isMounted2) = None"
  show "\<exists>v f h p. vision = Inr v \<and> face = Inr f \<and> hand = Inr h \<and> pose = Inr p
            \<and> isMounted1 \<and> isMounted2
            \<and> initializeModels s0 vision isMounted1 order face hand pose isMounted2
                = s0\<lparr> isLoading := False, error := None, faceLandmarkerRef := Some f,
                      handLandmarkerRef := Some h, poseLandmarkerRef := Some p \<rparr>"
  proof (cases vision)
    case (Inl err)
    with r show ?thesis
      by (simp add: initializeModels_def catchInit_def Let_def split: if_splits)
  next
    case (Inr v)
    show ?thesis
    proof (cases "Promise_all order face hand pose")
      case (Inl err)
      with r Inr show ?thesis
        by (simp add: initializeModels_def catchInit_def Let_def split: if_splits)
    next
      case ok: (Inr t)
      obtain f h p where t: "t = (f, h, p)" by (cases t) auto
      from ok t have "face = Inr f \<and> hand = Inr h \<and> pose = Inr p"
        by (simp add: Promise_all_Inr)
      with r Inr ok t show ?thesis
        by (simp add: initializeModels_def Let_def split: if_splits)
    qed
  qed
qed

theorem init_all_or_nothing_witness:
  "initializeModels (initialLifecycle :: unit lifecycle) (Inr () :: thrown + unit) True
       [2, 0, 1] (Inr emptyDetector) (Inl NonError) (Inl (Error ''model download failed'')) True
     = initialLifecycle\<lparr> isLoading := False, error := Some ''model download failed'' \<rparr>
   \<and> initializeModels (initialLifecycle :: unit lifecycle) (Inr () :: thrown + unit) True
       [0, 1, 2] (Inl (Error ''model download failed'')) (Inr emptyDetector)
       (Inr emptyDetector) True
     = initialLifecycle\<lparr> isLoading := False, error := Some ''model download failed'' \<rparr>
   \<and> initializeModels (initialLifecycle :: unit lifecycle) (Inr () :: thrown + unit) True
       [0, 1, 2] (Inr emptyDetector) (Inr emptyDetector) (Inr emptyDetector) True
     = readyLifecycle emptyDetector"
proof -
  let ?s = "initialLifecycle :: unit lifecycle"
  let ?v = "Inr () :: thrown + unit"
  let ?d = "Inr emptyDetector :: thrown + unit detector"
  let ?bad = "Inl (Error ''model download failed'') :: thrown + unit detector"
  let ?ok = "initializeModels ?s ?v True [0, 1, 2] ?d ?d ?d True"
  have race: "initializeModels ?s ?v True [2, 0, 1] ?d (Inl NonError) ?bad True
     = initialLifecycle\<lparr> isLoading := False, error := Some ''model download failed'' \<rparr>"
    by (simp add: initializeModels_def Promise_all_def rejection_def catchInit_def
      initialLifecycle_def)
  have fail: "initializeModels ?s ?v True [0, 1, 2] ?bad ?d ?d True
     = initialLifecycle\<lparr> isLoading := False, error := Some ''model download failed'' \<rparr>"
    using init_all_or_nothing [of ?bad ?d ?d ?v True True ?s "[0, 1, 2]"]
    by auto
  have "\<not> isLoading ?ok \<and> error ?ok = None"
    by (simp add: initializeModels_def Promise_all_def initialLifecycle_def)
  with init_all_or_nothing [of ?d ?d ?d ?v True True ?s "[0, 1, 2]"]
  have "?ok = readyLifecycle emptyDetector"
    by (auto simp: initialLifecycle_def readyLifecycle_def)
  with race fail show ?thesis by simp
qed

end
